theory Spec2Isabelle
  imports Main "HOL-Library.Word" "HOL-Library.Sublist"
begin

section \<open>JavaScript values\<close>

text \<open>
  A JavaScript string is a sequence of UTF-16 code units, so \<open>length\<close> and \<open>trim\<close> count
  what the program counts. The Korean texts of the source are written as code units; the
  ASCII parts are written as string literals and widened by \<open>ascii\<close>.
\<close>

type_synonym jsstring = "16 word list"

definition ascii :: "string \<Rightarrow> jsstring" where
  "ascii s = map of_char s"

text \<open>
  What a \<open>throw\<close> can carry: an instance of \<open>Error\<close> made by \<open>new Error(message)\<close>, a
  \<open>TypeError\<close> raised by the engine (also an instance of \<open>Error\<close>), or any other value.
\<close>

datatype js_exn = Error jsstring | TypeError jsstring | OtherThrown

fun instanceof_Error :: "js_exn \<Rightarrow> bool" where
  "instanceof_Error (Error m) = True"
| "instanceof_Error (TypeError m) = True"
| "instanceof_Error OtherThrown = False"

fun message :: "js_exn \<Rightarrow> jsstring" where
  "message (Error m) = m"
| "message (TypeError m) = m"
| "message OtherThrown = []"

text \<open>The values a property read of the store can produce.\<close>

datatype jsval = Undefined | Null | Str jsstring | Object

fun truthy :: "jsval \<Rightarrow> bool" where
  "truthy Undefined = False"
| "truthy Null = False"
| "truthy (Str s) = (s \<noteq> [])"
| "truthy Object = True"

text \<open>\<open>v || null\<close>\<close>

definition or_null :: "jsval \<Rightarrow> jsval" where
  "or_null v = (if truthy v then v else Null)"

section \<open>String operations of the source\<close>

text \<open>\<open>s.includes(needle)\<close>\<close>

definition js_includes :: "jsstring \<Rightarrow> jsstring \<Rightarrow> bool" where
  "js_includes s needle = sublist needle s"

text \<open>\<open>s.split(sep)\<close> for a separator of one code unit: never empty, \<open>''''.split(',')\<close> is \<open>['''']\<close>.\<close>

fun split_on :: "'a \<Rightarrow> 'a list \<Rightarrow> 'a list list" where
  "split_on sep [] = [[]]"
| "split_on sep (c # cs) =
     (if c = sep then [] # split_on sep cs
      else (case split_on sep cs of
              [] \<Rightarrow> [[c]]
            | piece # pieces \<Rightarrow> (c # piece) # pieces))"

text \<open>The code units that \<open>trim\<close> removes: ECMAScript's WhiteSpace and LineTerminator.\<close>

definition is_white_space :: "16 word \<Rightarrow> bool" where
  "is_white_space c =
     (c \<in> set [0x0009, 0x000A, 0x000B, 0x000C, 0x000D, 0x0020, 0x00A0, 0x1680,
               0x2000, 0x2001, 0x2002, 0x2003, 0x2004, 0x2005, 0x2006, 0x2007,
               0x2008, 0x2009, 0x200A, 0x2028, 0x2029, 0x202F, 0x205F, 0x3000,
               0xFEFF])"

definition trim :: "jsstring \<Rightarrow> jsstring" where
  "trim s = rev (dropWhile is_white_space (rev (dropWhile is_white_space s)))"

text \<open>
  \<open>`${n}`\<close> for an integral number below \<open>10^21\<close> in absolute value (a time in
  milliseconds, an array index): its decimal digits, with a minus sign when negative.
\<close>

fun digits :: "nat \<Rightarrow> jsstring" where
  "digits n = (if n < 10 then [of_nat (48 + n)] else digits (n div 10) @ [of_nat (48 + n mod 10)])"

definition Number_toString :: "int \<Rightarrow> jsstring" where
  "Number_toString i = (if 0 \<le> i then digits (nat i) else ascii ''-'' @ digits (nat (- i)))"

section \<open>Computations that may throw and that change a state\<close>

type_synonym ('w, 'a) js = "'w \<Rightarrow> (js_exn + 'a) \<times> 'w"

definition js_return :: "'a \<Rightarrow> ('w, 'a) js" where
  "js_return x w = (Inr x, w)"

definition js_throw :: "js_exn \<Rightarrow> ('w, 'a) js" where
  "js_throw e w = (Inl e, w)"

definition js_bind :: "('w, 'a) js \<Rightarrow> ('a \<Rightarrow> ('w, 'b) js) \<Rightarrow> ('w, 'b) js" where
  "js_bind m f w = (case m w of (Inl e, w') \<Rightarrow> (Inl e, w') | (Inr x, w') \<Rightarrow> f x w')"

text \<open>\<open>try { m } catch (e) { h e }\<close>\<close>

definition js_try_catch :: "('w, 'a) js \<Rightarrow> (js_exn \<Rightarrow> ('w, 'a) js) \<Rightarrow> ('w, 'a) js" where
  "js_try_catch m h w = (case m w of (Inl e, w') \<Rightarrow> h e w' | (Inr x, w') \<Rightarrow> (Inr x, w'))"

section \<open>src/utils/safeStorage.ts\<close>

subsection \<open>The browser's persistent storage\<close>

text \<open>
  The persistent layer is outside the program, so it is a parameter: whether \<open>window\<close>
  exists, and what reading \<open>window.localStorage\<close> and calling its three methods do to a
  storage state of any type \<open>'s\<close>. Every one of them may throw, return, and change the
  state, in any way. The getter of \<open>window.localStorage\<close> returns whether the value it
  produced is truthy.
\<close>

record 's browser =
  window_defined :: bool
  localStorage_getter :: "('s, bool) js"
  ls_getItem :: "jsstring \<Rightarrow> ('s, jsstring option) js"
  ls_setItem :: "jsstring \<Rightarrow> jsstring \<Rightarrow> ('s, unit) js"
  ls_removeItem :: "jsstring \<Rightarrow> ('s, unit) js"

subsection \<open>The in-memory fallback object\<close>

text \<open>
  \<open>const memoryStore: Record<string, string> = {}\<close> is a plain object: the map below holds
  its own properties, and its prototype is \<open>Object.prototype\<close>. A read of a name that is
  not an own property finds the prototype's property of that name, if there is one. A
  write creates an own property, except for \<open>__proto__\<close>, which is an accessor of the
  prototype whose setter ignores a string.
\<close>

definition object_prototype_names :: "jsstring list" where
  "object_prototype_names = map ascii
     [''constructor'', ''__defineGetter__'', ''__defineSetter__'', ''hasOwnProperty'',
      ''__lookupGetter__'', ''__lookupSetter__'', ''isPrototypeOf'',
      ''propertyIsEnumerable'', ''toString'', ''valueOf'', ''__proto__'',
      ''toLocaleString'']"

definition memoryStore_get :: "(jsstring \<rightharpoonup> jsstring) \<Rightarrow> jsstring \<Rightarrow> jsval" where
  "memoryStore_get m key =
     (case m key of
        Some v \<Rightarrow> Str v
      | None \<Rightarrow> if key \<in> set object_prototype_names then Object else Undefined)"

definition memoryStore_set ::
  "(jsstring \<rightharpoonup> jsstring) \<Rightarrow> jsstring \<Rightarrow> jsstring \<Rightarrow> (jsstring \<rightharpoonup> jsstring)" where
  "memoryStore_set m key v =
     (if key = ascii ''__proto__'' \<and> m key = None then m else m(key \<mapsto> v))"

definition memoryStore_delete :: "(jsstring \<rightharpoonup> jsstring) \<Rightarrow> jsstring \<Rightarrow> (jsstring \<rightharpoonup> jsstring)" where
  "memoryStore_delete m key = m(key := None)"

subsection \<open>The state of a session\<close>

record 's world =
  memoryStore :: "jsstring \<rightharpoonup> jsstring"
  storage :: 's

definition on_storage :: "('s, 'a) js \<Rightarrow> ('s world, 'a) js" where
  "on_storage m w = (case m (storage w) of (r, s') \<Rightarrow> (r, w\<lparr>storage := s'\<rparr>))"

text \<open>\<open>typeof window !== 'undefined' && window.localStorage\<close>\<close>

definition localStorage_available :: "'s browser \<Rightarrow> ('s world, bool) js" where
  "localStorage_available env =
     (if window_defined env then on_storage (localStorage_getter env) else js_return False)"

text \<open>
  \<open>window.localStorage.method(...)\<close>: the getter runs again, and a method call on a value
  that is \<open>null\<close> or \<open>undefined\<close> is a \<open>TypeError\<close>.
\<close>

definition call_localStorage :: "'s browser \<Rightarrow> ('s, 'a) js \<Rightarrow> ('s world, 'a) js" where
  "call_localStorage env method =
     js_bind (on_storage (localStorage_getter env)) (\<lambda>present.
       if present then on_storage method
       else js_throw (TypeError (ascii ''Cannot read properties of undefined'')))"

fun of_nullable :: "jsstring option \<Rightarrow> jsval" where
  "of_nullable None = Null"
| "of_nullable (Some s) = Str s"

subsection \<open>The three operations\<close>

text \<open>
  In \<open>getItem\<close> the \<open>try\<close> block either returns from the function (\<open>Some\<close>) or falls
  through (\<open>None\<close>); the \<open>catch\<close> block falls through as well. What \<open>localStorage\<close>
  returns is returned as it is, also \<open>null\<close> for a key it does not hold. Writing to the
  console is left out. The statements after each \<open>try\<close> read, write and delete a property
  of \<open>memoryStore\<close>, which does not throw for a string.
\<close>

definition getItem :: "'s browser \<Rightarrow> jsstring \<Rightarrow> ('s world, jsval) js" where
  "getItem env key =
     js_bind
       (js_try_catch
          (js_bind (localStorage_available env) (\<lambda>available.
             if available
             then js_bind (call_localStorage env (ls_getItem env key))
                    (\<lambda>v. js_return (Some (of_nullable v)))
             else js_return None))
          (\<lambda>e. js_return None))
       (\<lambda>returned. case returned of
          Some v \<Rightarrow> js_return v
        | None \<Rightarrow> (\<lambda>w. (Inr (or_null (memoryStore_get (memoryStore w) key)), w)))"

definition setItem :: "'s browser \<Rightarrow> jsstring \<Rightarrow> jsstring \<Rightarrow> ('s world, unit) js" where
  "setItem env key v =
     js_bind
       (js_try_catch
          (js_bind (localStorage_available env) (\<lambda>available.
             if available then call_localStorage env (ls_setItem env key v)
             else js_return ()))
          (\<lambda>e. js_return ()))
       (\<lambda>_ w. (Inr (), w\<lparr>memoryStore := memoryStore_set (memoryStore w) key v\<rparr>))"

definition removeItem :: "'s browser \<Rightarrow> jsstring \<Rightarrow> ('s world, unit) js" where
  "removeItem env key =
     js_bind
       (js_try_catch
          (js_bind (localStorage_available env) (\<lambda>available.
             if available then call_localStorage env (ls_removeItem env key)
             else js_return ()))
          (\<lambda>e. js_return ()))
       (\<lambda>_ w. (Inr (), w\<lparr>memoryStore := memoryStore_delete (memoryStore w) key\<rparr>))"

text \<open>A persistent layer of which every operation throws.\<close>

definition always_throwing :: "unit browser" where
  "always_throwing =
     \<lparr>window_defined = True,
      localStorage_getter = js_throw OtherThrown,
      ls_getItem = (\<lambda>key. js_throw OtherThrown),
      ls_setItem = (\<lambda>key v. js_throw OtherThrown),
      ls_removeItem = (\<lambda>key. js_throw OtherThrown)\<rparr>"

definition fresh_session :: "unit world" where
  "fresh_session = \<lparr>memoryStore = Map.empty, storage = ()\<rparr>"

section \<open>src/types.ts\<close>

record GeneratedImage =
  image_id :: jsstring
  url :: jsstring
  prompt :: jsstring
  createdAt :: int

section \<open>src/services/geminiService.ts\<close>

subsection \<open>The provider\<close>

text \<open>
  The client object made by \<open>new GoogleGenAI({ apiKey })\<close>; the constructor only keeps
  the key.
\<close>

datatype GoogleGenAI = GoogleGenAI (apiKey_of: jsstring)

text \<open>
  The shapes the source reads and writes. Every field the source tests before use is
  optional; \<open>content\<close> is optional in the provider's declarations and the source reads
  it without a test.
\<close>

datatype inline_data = InlineData (mimeType: "jsstring option") (data: "jsstring option")

datatype part = Part (inlineData: "inline_data option") (part_text: "jsstring option")

datatype content = Content (parts: "part list option")

datatype candidate = Candidate (content: "content option")

datatype response = Response (candidates: "candidate list option") (response_text: "jsstring option")

datatype contents = Contents_text jsstring | Contents_parts "part list"

datatype request = Request (model: jsstring) (contents: contents) (aspectRatio: "jsstring option")

text \<open>
  The outside world of the service: how the provider settles the \<open>n\<close>-th call issued
  (a rejection or a response, which may differ between calls with the same request),
  what the \<open>n\<close>-th read of \<open>Date.now()\<close> gives, and in which order the promises of a
  \<open>Promise.all\<close> settle.
\<close>

record provider_env =
  respond :: "nat \<Rightarrow> GoogleGenAI \<Rightarrow> request \<Rightarrow> js_exn + response"
  now :: "nat \<Rightarrow> int"
  settle_order :: "nat list"

text \<open>
  The state of the module: the variable \<open>genAI\<close>, and a record of what the module has
  done to the outside world, the calls issued to the provider, in order, and the number
  of clock reads.
\<close>

record service =
  genAI :: "GoogleGenAI option"
  issued :: "(GoogleGenAI \<times> request) list"
  clock_reads :: nat

definition IMAGE_MODEL_NAME :: jsstring where
  "IMAGE_MODEL_NAME = ascii ''gemini-2.5-flash-image''"

definition TEXT_MODEL_NAME :: jsstring where
  "TEXT_MODEL_NAME = ascii ''gemini-2.5-flash''"

text \<open>\<open>await ai.models.generateContent(request)\<close>\<close>

definition generateContent :: "provider_env \<Rightarrow> GoogleGenAI \<Rightarrow> request \<Rightarrow> (service, response) js" where
  "generateContent env ai req w =
     (respond env (length (issued w)) ai req, w\<lparr>issued := issued w @ [(ai, req)]\<rparr>)"

definition Date_now :: "provider_env \<Rightarrow> (service, int) js" where
  "Date_now env w = (Inr (now env (clock_reads w)), w\<lparr>clock_reads := Suc (clock_reads w)\<rparr>)"

subsection \<open>The texts of the source\<close>

definition no_api_key_message :: jsstring where
  "no_api_key_message =
     ascii ''API Key'' @ [0xAC00] @ ascii '' '' @ [0xC124, 0xC815, 0xB418, 0xC9C0] @ ascii '' ''
     @ [0xC54A, 0xC558, 0xC2B5, 0xB2C8, 0xB2E4] @ ascii ''. '' @ [0xC124, 0xC815] @ ascii '' ''
     @ [0xBC84, 0xD2BC, 0xC744] @ ascii '' '' @ [0xB20C, 0xB7EC] @ ascii '' '' @ [0xD0A4, 0xB97C]
     @ ascii '' '' @ [0xC785, 0xB825, 0xD574, 0xC8FC, 0xC138, 0xC694] @ ascii ''.''"

definition wallpapers_no_api_key_message :: jsstring where
  "wallpapers_no_api_key_message =
     ascii ''API Key'' @ [0xAC00] @ ascii '' '' @ [0xC124, 0xC815, 0xB418, 0xC9C0] @ ascii '' ''
     @ [0xC54A, 0xC558, 0xC2B5, 0xB2C8, 0xB2E4] @ ascii ''.''"

definition wallpapers_failed_message :: jsstring where
  "wallpapers_failed_message =
     [0xBC30, 0xACBD, 0xD654, 0xBA74] @ ascii '' '' @ [0xC0DD, 0xC131] @ ascii '' '' @ [0xC911]
     @ ascii '' '' @ [0xC624, 0xB958, 0xAC00] @ ascii '' ''
     @ [0xBC1C, 0xC0DD, 0xD588, 0xC2B5, 0xB2C8, 0xB2E4] @ ascii ''. '' @ [0xB2E4, 0xC2DC]
     @ ascii '' '' @ [0xC2DC, 0xB3C4, 0xD574, 0xC8FC, 0xC138, 0xC694] @ ascii ''.''"

definition no_image_message :: jsstring where
  "no_image_message =
     [0xC774, 0xBBF8, 0xC9C0, 0xB97C] @ ascii '' '' @ [0xC0DD, 0xC131, 0xD558, 0xC9C0] @ ascii '' ''
     @ [0xBABB, 0xD588, 0xC2B5, 0xB2C8, 0xB2E4] @ ascii ''.''"

definition fallback_topics :: "jsstring list" where
  "fallback_topics =
     [[0xBABD, 0xD658, 0xC801, 0xC778] @ ascii '' '' @ [0xBC24, 0xD558, 0xB298],
      [0xBE44] @ ascii '' '' @ [0xC624, 0xB294] @ ascii '' '' @ [0xB3C4, 0xC2DC],
      [0xCC28, 0xBD84, 0xD55C] @ ascii '' '' @ [0xC232, 0xC18D],
      [0xBBF8, 0xB2C8, 0xBA40, 0xD55C] @ ascii '' '' @ [0xAE30, 0xD558, 0xD559],
      [0xBE48, 0xD2F0, 0xC9C0] @ ascii '' '' @ [0xD544, 0xB984] @ ascii '' '' @ [0xAC10, 0xC131]]"

definition creative_prompt_text :: "jsstring \<Rightarrow> jsstring" where
  "creative_prompt_text topic =
     ascii ''Write a detailed, artistic text-to-image prompt for a phone wallpaper based on the theme: ''
     @ [0x22] @ topic @ [0x22] @ ascii ''. '' @ [0x0A]
     @ ascii ''      The prompt should describe visual elements, lighting, style, and mood. '' @ [0x0A]
     @ ascii ''      Keep it under 40 words. '' @ [0x0A]
     @ ascii ''      Output ONLY the prompt text in English, no explanations.''"

definition topics_prompt_text :: jsstring where
  "topics_prompt_text =
     ascii ''Generate 5 creative, distinct, and aesthetic phone wallpaper themes/topics (e.g., ''
     @ [0x22] @ ascii ''Cyberpunk Rainy City'' @ [0x22] @ ascii '', ''
     @ [0x22] @ ascii ''Minimalist Zen Garden'' @ [0x22] @ ascii ''). '' @ [0x0A]
     @ ascii ''      Output ONLY the 5 themes separated by commas. No numbering or bullets. '' @ [0x0A]
     @ ascii ''      Translate them to Korean.''"

subsection \<open>The credential\<close>

text \<open>\<open>!apiKey\<close> holds of the empty string only.\<close>

definition setApiKey :: "jsstring \<Rightarrow> (service, unit) js" where
  "setApiKey apiKey w =
     (if apiKey = [] then (Inr (), w\<lparr>genAI := None\<rparr>)
      else (Inr (), w\<lparr>genAI := Some (GoogleGenAI apiKey)\<rparr>))"

definition validateApiKey :: "provider_env \<Rightarrow> jsstring \<Rightarrow> (service, bool) js" where
  "validateApiKey env apiKey =
     js_try_catch
       (js_bind (js_return (GoogleGenAI apiKey)) (\<lambda>tempAI.
        js_bind (generateContent env tempAI
                   (Request TEXT_MODEL_NAME (Contents_text (ascii ''test'')) None)) (\<lambda>_.
        js_return True)))
       (\<lambda>error. js_return False)"

definition getClient :: "(service, GoogleGenAI) js" where
  "getClient w =
     (case genAI w of
        None \<Rightarrow> js_throw (Error no_api_key_message) w
      | Some ai \<Rightarrow> js_return ai w)"

text \<open>\<open>error instanceof Error && error.message.includes("API Key")\<close>\<close>

definition mentions_API_Key :: "js_exn \<Rightarrow> bool" where
  "mentions_API_Key error = (instanceof_Error error \<and> js_includes (message error) (ascii ''API Key''))"

subsection \<open>Text generation\<close>

text \<open>\<open>response.text?.trim() || topic\<close>\<close>

definition trimmed_text_or :: "response \<Rightarrow> jsstring \<Rightarrow> jsstring" where
  "trimmed_text_or resp topic =
     (case response_text resp of
        None \<Rightarrow> topic
      | Some t \<Rightarrow> if trim t = [] then topic else trim t)"

definition generateCreativePrompt :: "provider_env \<Rightarrow> jsstring \<Rightarrow> (service, jsstring) js" where
  "generateCreativePrompt env topic =
     js_try_catch
       (js_bind getClient (\<lambda>ai.
        js_bind (generateContent env ai
                   (Request TEXT_MODEL_NAME (Contents_text (creative_prompt_text topic)) None))
          (\<lambda>resp. js_return (trimmed_text_or resp topic))))
       (\<lambda>error. if mentions_API_Key error then js_throw error else js_return topic)"

text \<open>\<open>response.text || ""\<close>\<close>

definition text_or_empty :: "response \<Rightarrow> jsstring" where
  "text_or_empty resp = (case response_text resp of None \<Rightarrow> [] | Some t \<Rightarrow> t)"

definition generateTopicSuggestions :: "provider_env \<Rightarrow> (service, jsstring list) js" where
  "generateTopicSuggestions env =
     js_try_catch
       (js_bind getClient (\<lambda>ai.
        js_bind (generateContent env ai
                   (Request TEXT_MODEL_NAME (Contents_text topics_prompt_text) None))
          (\<lambda>resp. js_return
             (filter (\<lambda>t. length t > 0) (map trim (split_on 0x2C (text_or_empty resp)))))))
       (\<lambda>error. if mentions_API_Key error then js_throw error else js_return fallback_topics)"

subsection \<open>Image generation\<close>

text \<open>\<open>if (referenceImage)\<close>: the argument was given and is not the empty string.\<close>

fun given :: "jsstring option \<Rightarrow> bool" where
  "given None = False"
| "given (Some s) = (s \<noteq> [])"

text \<open>
  The parts pushed before the text part: \<open>referenceImage.split(',')[1]\<close> is the second
  piece, \<open>undefined\<close> when there is none, and is pushed when it is truthy.
\<close>

definition reference_parts :: "jsstring option \<Rightarrow> part list" where
  "reference_parts referenceImage =
     (case referenceImage of
        None \<Rightarrow> []
      | Some r \<Rightarrow>
          if r = [] then []
          else (case split_on 0x2C r of
                  first # base64Data # rest \<Rightarrow>
                    if base64Data \<noteq> []
                    then [Part (Some (InlineData (Some (ascii ''image/png'')) (Some base64Data))) None]
                    else []
                | _ \<Rightarrow> []))"

definition enhancedPrompt :: "jsstring option \<Rightarrow> jsstring \<Rightarrow> jsstring" where
  "enhancedPrompt referenceImage = (\<lambda>prompt.
     if given referenceImage
     then ascii ''Remix this image based on these instructions: '' @ prompt
          @ ascii ''. Ensure high quality, aesthetic, phone wallpaper style.''
     else prompt
          @ ascii ''. High quality, aesthetic, 9:16 vertical phone wallpaper, highly detailed, atmospheric.'')"

definition image_request :: "jsstring \<Rightarrow> jsstring option \<Rightarrow> request" where
  "image_request = (\<lambda>prompt referenceImage.
     Request IMAGE_MODEL_NAME
       (Contents_parts (reference_parts referenceImage
                        @ [Part None (Some (enhancedPrompt referenceImage prompt))]))
       (Some (ascii ''9:16'')))"

text \<open>\<open>`data:${part.inlineData.mimeType || 'image/png'};base64,${part.inlineData.data}`\<close>\<close>

definition data_url :: "jsstring option \<Rightarrow> jsstring \<Rightarrow> jsstring" where
  "data_url mime bytes =
     ascii ''data:''
     @ (case mime of None \<Rightarrow> ascii ''image/png''
                   | Some m \<Rightarrow> if m = [] then ascii ''image/png'' else m)
     @ ascii '';base64,'' @ bytes"

text \<open>
  The \<open>for\<close> loop over the parts: it returns at the first part whose \<open>inlineData\<close> and
  \<open>inlineData.data\<close> are both truthy, and ends without a result otherwise.
\<close>

fun first_inline_image :: "part list \<Rightarrow> jsstring option" where
  "first_inline_image [] = None"
| "first_inline_image (p # ps) =
     (case inlineData p of
        None \<Rightarrow> first_inline_image ps
      | Some d \<Rightarrow>
          (case data d of
             None \<Rightarrow> first_inline_image ps
           | Some bytes \<Rightarrow>
               if bytes \<noteq> [] then Some (data_url (mimeType d) bytes)
               else first_inline_image ps))"

text \<open>
  What the engine throws for a property read on \<open>undefined\<close>; the wording of the
  message is the engine's.
\<close>

definition undefined_read :: "string \<Rightarrow> js_exn" where
  "undefined_read property =
     TypeError (ascii ''Cannot read properties of undefined (reading '' @ [0x27]
                @ ascii property @ [0x27] @ ascii '')'')"

text \<open>
  From \<open>if (response.candidates && response.candidates[0].content.parts)\<close> to the
  \<open>throw\<close> after it. An array is truthy also when it is empty, and then its element \<open>0\<close>
  is \<open>undefined\<close>.
\<close>

definition extract_image :: "response \<Rightarrow> (service, jsstring) js" where
  "extract_image resp =
     (case candidates resp of
        None \<Rightarrow> js_throw (Error no_image_message)
      | Some [] \<Rightarrow> js_throw (undefined_read ''content'')
      | Some (c # cs) \<Rightarrow>
          (case content c of
             None \<Rightarrow> js_throw (undefined_read ''parts'')
           | Some ct \<Rightarrow>
               (case parts ct of
                  None \<Rightarrow> js_throw (Error no_image_message)
                | Some ps \<Rightarrow>
                    (case first_inline_image ps of
                       Some found \<Rightarrow> js_return found
                     | None \<Rightarrow> js_throw (Error no_image_message)))))"

definition generateSingleImage ::
  "provider_env \<Rightarrow> jsstring \<Rightarrow> jsstring option \<Rightarrow> (service, jsstring) js" where
  "generateSingleImage env = (\<lambda>prompt referenceImage.
     js_try_catch
       (js_bind getClient (\<lambda>ai.
        js_bind (generateContent env ai (image_request prompt referenceImage)) extract_image))
       (\<lambda>error. js_throw error))"

subsection \<open>Promises\<close>

text \<open>
  Calling an \<open>async\<close> function never throws: it runs the body up to its completion (the
  model has one thread and the call to the provider settles when it is issued) and gives
  a promise that is rejected or fulfilled.
\<close>

definition promise_of :: "('w, 'a) js \<Rightarrow> ('w, js_exn + 'a) js" where
  "promise_of m w = (case m w of (r, w') \<Rightarrow> (Inr r, w'))"

text \<open>\<open>array.map(f)\<close> for an \<open>f\<close> with effects, in the order of the array.\<close>

fun js_map :: "('a \<Rightarrow> ('w, 'b) js) \<Rightarrow> 'a list \<Rightarrow> ('w, 'b list) js" where
  "js_map f [] = js_return []"
| "js_map f (x # xs) = js_bind (f x) (\<lambda>y. js_bind (js_map f xs) (\<lambda>ys. js_return (y # ys)))"

text \<open>
  \<open>await Promise.all(promises)\<close>: the values in the order of the array when every promise
  is fulfilled, and otherwise the rejection of the rejected promise that settles first.
  The rejections are listed in the order of settling, completed by the order of the
  array.
\<close>

definition rejection_at :: "(js_exn + 'a) list \<Rightarrow> nat \<Rightarrow> js_exn list" where
  "rejection_at promises i =
     (if i < length promises
      then (case promises ! i of Inl e \<Rightarrow> [e] | Inr v \<Rightarrow> [])
      else [])"

fun fulfilled_value :: "js_exn + 'a \<Rightarrow> 'a list" where
  "fulfilled_value (Inl e) = []"
| "fulfilled_value (Inr v) = [v]"

definition Promise_all :: "nat list \<Rightarrow> (js_exn + 'a) list \<Rightarrow> ('w, 'a list) js" where
  "Promise_all order promises =
     (case concat (map (rejection_at promises) (order @ [0..<length promises])) of
        e # es \<Rightarrow> js_throw e
      | [] \<Rightarrow> js_return (concat (map fulfilled_value promises)))"

subsection \<open>The set of four\<close>

text \<open>\<open>const promises = Array(4).fill(null).map(() => generateSingleImage(prompt, referenceImage))\<close>\<close>

definition wallpaper_promises ::
  "provider_env \<Rightarrow> jsstring \<Rightarrow> jsstring option \<Rightarrow> (service, (js_exn + jsstring) list) js" where
  "wallpaper_promises env = (\<lambda>prompt referenceImage.
     js_map (\<lambda>_. promise_of (generateSingleImage env prompt referenceImage)) (replicate 4 ()))"

definition generateWallpapers ::
  "provider_env \<Rightarrow> jsstring \<Rightarrow> jsstring option \<Rightarrow> (service, GeneratedImage list) js" where
  "generateWallpapers env = (\<lambda>prompt referenceImage.
     js_bind (wallpaper_promises env prompt referenceImage) (\<lambda>promises.
     js_try_catch
       (js_bind (Promise_all (settle_order env) promises) (\<lambda>results.
        js_map (\<lambda>(url, index).
                  js_bind (Date_now env) (\<lambda>t.
                  js_bind (Date_now env) (\<lambda>t'.
                  js_return \<lparr>image_id = Number_toString t @ ascii ''-''
                                        @ Number_toString (int index),
                             url = url, prompt = prompt, createdAt = t'\<rparr>)))
          (zip results [0..<length results])))
       (\<lambda>error.
          if mentions_API_Key error then js_throw (Error wallpapers_no_api_key_message)
          else js_throw (Error wallpapers_failed_message))))"

subsection \<open>A session of calls to the client\<close>

datatype client_call =
    SuggestTopics
  | CraftPrompt jsstring
  | RenderImage jsstring "jsstring option"
  | RenderWallpaperSet jsstring "jsstring option"

datatype client_result =
    Topics "jsstring list"
  | CraftedPrompt jsstring
  | Image jsstring
  | WallpaperSet "GeneratedImage list"

fun perform :: "provider_env \<Rightarrow> client_call \<Rightarrow> (service, client_result) js" where
  "perform env SuggestTopics =
     js_bind (generateTopicSuggestions env) (\<lambda>r. js_return (Topics r))"
| "perform env (CraftPrompt theme) =
     js_bind (generateCreativePrompt env theme) (\<lambda>r. js_return (CraftedPrompt r))"
| "perform env (RenderImage p referenceImage) =
     js_bind (generateSingleImage env p referenceImage) (\<lambda>r. js_return (Image r))"
| "perform env (RenderWallpaperSet p referenceImage) =
     js_bind (generateWallpapers env p referenceImage) (\<lambda>r. js_return (WallpaperSet r))"

text \<open>The calls of a session one after the other, each with its own outcome.\<close>

fun perform_all :: "provider_env \<Rightarrow> client_call list \<Rightarrow> service \<Rightarrow> (js_exn + client_result) list" where
  "perform_all env [] w = []"
| "perform_all env (c # cs) w = (case perform env c w of (r, w') \<Rightarrow> r # perform_all env cs w')"

text \<open>The error a call gives when no credential is set.\<close>

fun missing_credential :: "client_call \<Rightarrow> js_exn" where
  "missing_credential (RenderWallpaperSet p referenceImage) = Error wallpapers_no_api_key_message"
| "missing_credential c = Error no_api_key_message"

section \<open>src/App.tsx\<close>

text \<open>The state variables of the component that \<open>handleGenerate\<close> reads and sets.\<close>

record app =
  apiKey :: jsstring
  isSettingsOpen :: bool
  prompt :: jsstring
  images :: "GeneratedImage list"
  isLoading :: bool
  remixSource :: "GeneratedImage option"
  error :: "jsstring option"

definition unknown_error_message :: jsstring where
  "unknown_error_message =
     [0xC54C] @ ascii '' '' @ [0xC218] @ ascii '' '' @ [0xC5C6, 0xB294] @ ascii '' ''
     @ [0xC624, 0xB958, 0xAC00] @ ascii '' '' @ [0xBC1C, 0xC0DD, 0xD588, 0xC2B5, 0xB2C8, 0xB2E4]
     @ ascii ''.''"

definition checkApiKey :: "app \<Rightarrow> bool \<times> app" where
  "checkApiKey st =
     (if apiKey st = [] then (False, st\<lparr>isSettingsOpen := True\<rparr>) else (True, st))"

text \<open>
  \<open>handleGenerate\<close> up to its \<open>await\<close>: the state it leaves while the request is in
  flight, and the arguments of the call to \<open>generateWallpapers\<close> (\<open>None\<close> when it
  returned without issuing one).
\<close>

definition handleGenerate_start :: "app \<Rightarrow> (jsstring \<times> jsstring option) option \<times> app" where
  "handleGenerate_start st =
     (case checkApiKey st of
        (False, st1) \<Rightarrow> (None, st1)
      | (True, st1) \<Rightarrow>
          if trim (app.prompt st) = [] then (None, st1)
          else (Some (app.prompt st, map_option url (remixSource st)),
                st1\<lparr>isLoading := True, error := None, images := []\<rparr>))"

text \<open>
  \<open>handleGenerate\<close> after the \<open>await\<close>, when the call has settled. The test of
  \<open>remixSource\<close> reads the value the handler closed over, \<open>captured\<close>.
\<close>

definition handleGenerate_settled :: "app \<Rightarrow> js_exn + GeneratedImage list \<Rightarrow> app \<Rightarrow> app" where
  "handleGenerate_settled captured settled st =
     (case settled of
        Inr generatedImages \<Rightarrow>
          (if remixSource captured \<noteq> None
           then st\<lparr>images := generatedImages, remixSource := None, isLoading := False\<rparr>
           else st\<lparr>images := generatedImages, isLoading := False\<rparr>)
      | Inl err \<Rightarrow>
          st\<lparr>error := Some (if instanceof_Error err then message err else unknown_error_message),
             isLoading := False\<rparr>)"

definition handleGenerate :: "provider_env \<Rightarrow> app \<times> service \<Rightarrow> app \<times> service" where
  "handleGenerate env = (\<lambda>(st, w).
     case handleGenerate_start st of
       (None, st1) \<Rightarrow> (st1, w)
     | (Some (p, referenceImage), st1) \<Rightarrow>
         (case generateWallpapers env p referenceImage w of
            (settled, w') \<Rightarrow> (handleGenerate_settled st settled st1, w')))"

section \<open>Concrete situations\<close>

text \<open>A service with no credential, and one armed with the credential \<open>abc123\<close>.\<close>

definition unarmed :: service where
  "unarmed = \<lparr>genAI = None, issued = [], clock_reads = 0\<rparr>"

definition armed :: service where
  "armed = \<lparr>genAI = Some (GoogleGenAI (ascii ''abc123'')), issued = [], clock_reads = 0\<rparr>"

text \<open>A provider that rejects every call with the same error, and a clock.\<close>

definition rejecting :: "js_exn \<Rightarrow> provider_env" where
  "rejecting e = \<lparr>respond = (\<lambda>n ai req. Inl e), now = (\<lambda>n. 1700 + int n), settle_order = []\<rparr>"

text \<open>A provider that answers every call with the same response.\<close>

definition answering :: "response \<Rightarrow> provider_env" where
  "answering resp =
     \<lparr>respond = (\<lambda>n ai req. Inr resp), now = (\<lambda>n. 1700 + int n), settle_order = []\<rparr>"

text \<open>A response with a text part and then one image.\<close>

definition one_image :: response where
  "one_image =
     Response (Some [Candidate (Some (Content (Some
       [Part None (Some (ascii ''Here is your wallpaper.'')),
        Part (Some (InlineData None (Some (ascii ''QUJD'')))) None])))]) None"

text \<open>
  A component that shows a result and an error of an earlier generation, with a credential
  and a prompt.
\<close>

definition stale :: app where
  "stale =
     \<lparr>apiKey = ascii ''abc123'', isSettingsOpen = False, prompt = ascii ''sunset'',
      images = [\<lparr>image_id = ascii ''1699-0'', url = ascii ''data:image/png;base64,QUJD'',
                 prompt = ascii ''forest'', createdAt = 1699\<rparr>],
      isLoading = False, remixSource = None, error = Some wallpapers_failed_message\<rparr>"

section \<open>Theorems\<close>

subsection \<open>Facts about the client\<close>

lemmas js_defs = js_bind_def js_try_catch_def js_return_def js_throw_def

lemma mentions_no_api_key: "mentions_API_Key (Error no_api_key_message)"
  by (simp add: mentions_API_Key_def js_includes_def no_api_key_message_def ascii_def sublist_code)

lemma mentions_wallpapers_no_api_key: "mentions_API_Key (Error wallpapers_no_api_key_message)"
  by (simp add: mentions_API_Key_def js_includes_def wallpapers_no_api_key_message_def ascii_def sublist_code)



lemma getClient_unarmed: "genAI w = None \<Longrightarrow> getClient w = (Inl (Error no_api_key_message), w)"
  by (simp add: getClient_def js_defs)

lemma getClient_armed: "genAI w = Some ai \<Longrightarrow> getClient w = (Inr ai, w)"
  by (simp add: getClient_def js_defs)

lemma generateTopicSuggestions_unarmed:
  "genAI w = None \<Longrightarrow> generateTopicSuggestions env w = (Inl (Error no_api_key_message), w)"
  by (simp add: generateTopicSuggestions_def js_defs getClient_unarmed mentions_no_api_key)

lemma generateCreativePrompt_unarmed:
  "genAI w = None \<Longrightarrow> generateCreativePrompt env topic w = (Inl (Error no_api_key_message), w)"
  by (simp add: generateCreativePrompt_def js_defs getClient_unarmed mentions_no_api_key)

lemma generateSingleImage_unarmed:
  "genAI w = None \<Longrightarrow> generateSingleImage env p r w = (Inl (Error no_api_key_message), w)"
  by (simp add: generateSingleImage_def js_defs getClient_unarmed)

lemma wallpaper_promises_unarmed:
  "genAI w = None \<Longrightarrow>
   wallpaper_promises env p r w = (Inr (replicate 4 (Inl (Error no_api_key_message))), w)"
  by (simp add: wallpaper_promises_def promise_of_def js_defs generateSingleImage_unarmed
      numeral_Bit0 )


lemma extract_image_state: "snd (extract_image resp w) = w"
  by (simp add: extract_image_def js_defs split: option.splits list.splits)

lemma extract_image_run: "extract_image resp w' = (fst (extract_image resp w), w')"
  by (simp add: extract_image_def js_defs split: option.splits list.splits)

lemma generateSingleImage_armed:
  assumes "genAI w = Some ai"
  shows "generateSingleImage env p r w =
    (case respond env (length (issued w)) ai (image_request p r) of
       Inl e \<Rightarrow> Inl e
     | Inr resp \<Rightarrow> fst (extract_image resp w),
     w\<lparr>issued := issued w @ [(ai, image_request p r)]\<rparr>)"
proof (cases "respond env (length (issued w)) ai (image_request p r)")
  case (Inl e)
  with assms show ?thesis
    by (simp add: generateSingleImage_def js_defs getClient_armed generateContent_def)
next
  case (Inr resp)
  obtain x where x: "extract_image resp w = (x, w)"
    using extract_image_run [of resp w w] by simp
  have "extract_image resp (w\<lparr>issued := issued w @ [(ai, image_request p r)]\<rparr>)
        = (x, w\<lparr>issued := issued w @ [(ai, image_request p r)]\<rparr>)"
    using extract_image_run [of resp "w\<lparr>issued := issued w @ [(ai, image_request p r)]\<rparr>" w] x
    by simp
  with assms Inr x show ?thesis
    by (cases x) (simp_all add: generateSingleImage_def js_defs getClient_armed generateContent_def)
qed

lemma generateSingleImage_genAI: "genAI (snd (generateSingleImage env p r w)) = genAI w"
proof (cases "genAI w")
  case None
  then show ?thesis by (simp add: generateSingleImage_unarmed)
next
  case (Some ai)
  then show ?thesis by (simp add: generateSingleImage_armed)
qed

lemma promise_of_run: "promise_of m w = (Inr (fst (m w)), snd (m w))"
  by (simp add: promise_of_def split: prod.splits)

lemma wallpaper_promises_run:
  "wallpaper_promises env p r w =
     (let G = generateSingleImage env p r;
          w1 = snd (G w); w2 = snd (G w1); w3 = snd (G w2); w4 = snd (G w3)
      in (Inr [fst (G w), fst (G w1), fst (G w2), fst (G w3)], w4))"
  by (simp add: wallpaper_promises_def numeral_eq_Suc js_defs promise_of_run Let_def)

lemma wallpaper_promises_armed:
  assumes "genAI w = Some ai"
  shows "snd (wallpaper_promises env p r w)
         = w\<lparr>issued := issued w @ replicate 4 (ai, image_request p r)\<rparr>"
proof -
  let ?G = "generateSingleImage env p r"
  let ?q = "(ai, image_request p r)"
  have step: "snd (?G w') = w'\<lparr>issued := issued w' @ [?q]\<rparr>" if "genAI w' = Some ai" for w'
    using that by (simp add: generateSingleImage_armed [where ai = ai])
  have w1: "snd (?G w) = w\<lparr>issued := issued w @ [?q]\<rparr>"
    using assms by (rule step)
  have w2: "snd (?G (snd (?G w))) = w\<lparr>issued := issued w @ [?q, ?q]\<rparr>"
    using assms by (simp add: w1 step)
  have w3: "snd (?G (snd (?G (snd (?G w))))) = w\<lparr>issued := issued w @ [?q, ?q, ?q]\<rparr>"
    using assms by (simp add: w2 step)
  have w4: "snd (?G (snd (?G (snd (?G (snd (?G w))))))) = w\<lparr>issued := issued w @ [?q, ?q, ?q, ?q]\<rparr>"
    using assms by (simp add: w3 step)
  have "replicate 4 ?q = [?q, ?q, ?q, ?q]"
    by (simp add: numeral_eq_Suc)
  with w4 show ?thesis
    by (simp add: wallpaper_promises_run Let_def)
qed

lemma rejection_member:
  "e \<in> set (concat (map (rejection_at ps) ns)) \<Longrightarrow> Inl e \<in> set ps"
proof (induction ns)
  case Nil
  then show ?case by simp
next
  case (Cons n ns)
  show ?case
  proof (cases "e \<in> set (rejection_at ps n)")
    case True
    have n: "n < length ps"
      using True by (cases "n < length ps") (simp_all add: rejection_at_def)
    have "ps ! n = Inl e"
      using True n by (cases "ps ! n") (simp_all add: rejection_at_def)
    then show ?thesis using nth_mem [OF n] by simp
  next
    case False
    with Cons show ?thesis by simp
  qed
qed

lemma rejection_found:
  "i < length ps \<Longrightarrow> ps ! i = Inl e \<Longrightarrow> i \<in> set ns \<Longrightarrow>
   concat (map (rejection_at ps) ns) \<noteq> []"
proof (induction ns)
  case Nil
  then show ?case by simp
next
  case (Cons n ns)
  show ?case
  proof (cases "n = i")
    case True
    with Cons.prems have "rejection_at ps n = [e]" by (simp add: rejection_at_def)
    then show ?thesis by simp
  next
    case False
    with Cons show ?thesis by simp
  qed
qed

lemma Promise_all_rejected:
  assumes "Inl e0 \<in> set ps"
  shows "\<exists>e. Promise_all order ps w = (Inl e, w) \<and> Inl e \<in> set ps"
proof -
  from assms obtain i where i: "i < length ps" "ps ! i = Inl e0"
    by (auto simp: in_set_conv_nth)
  let ?rs = "concat (map (rejection_at ps) (order @ [0..<length ps]))"
  from i have "?rs \<noteq> []"
    by (intro rejection_found [of i ps e0]) auto
  then obtain e es where rs: "?rs = e # es" by (cases ?rs) auto
  then have "e \<in> set ?rs" by simp
  then have "Inl e \<in> set ps" by (rule rejection_member)
  with rs show ?thesis by (auto simp: Promise_all_def js_defs)
qed

lemma rejection_at_fulfilled: "rejection_at (map Inr vs) n = []"
proof (cases "n < length vs")
  case True
  then have "map Inr vs ! n = Inr (vs ! n)" by simp
  with True show ?thesis unfolding rejection_at_def by simp
next
  case False
  then show ?thesis unfolding rejection_at_def by simp
qed

lemma no_rejection: "concat (map (rejection_at (map Inr vs)) ns) = []"
  by (induction ns) (simp_all only: rejection_at_fulfilled list.map concat.simps append_Nil)

lemma Promise_all_fulfilled: "Promise_all order (map Inr vs) w = (Inr vs, w)"
proof -
  have "concat (map fulfilled_value (map Inr vs)) = vs"
    by (induction vs) auto
  then show ?thesis
    by (simp add: Promise_all_def no_rejection js_defs)
qed

lemma generateWallpapers_rejected:
  assumes "fst (wallpaper_promises env p r w) = Inr ps" and "Inl e0 \<in> set ps"
  shows "\<exists>e. Inl e \<in> set ps \<and>
     generateWallpapers env p r w =
       (Inl (if mentions_API_Key e then Error wallpapers_no_api_key_message
             else Error wallpapers_failed_message),
        snd (wallpaper_promises env p r w))"
proof -
  obtain w1 where run: "wallpaper_promises env p r w = (Inr ps, w1)"
    using assms(1) by (cases "wallpaper_promises env p r w") auto
  from Promise_all_rejected [OF assms(2), of "settle_order env" w1] obtain e
    where e: "Promise_all (settle_order env) ps w1 = (Inl e, w1)" and mem: "Inl e \<in> set ps"
    by (elim exE conjE)
  have "generateWallpapers env p r w =
       (Inl (if mentions_API_Key e then Error wallpapers_no_api_key_message
             else Error wallpapers_failed_message), w1)"
    unfolding generateWallpapers_def
    by (simp add: js_bind_def [of "wallpaper_promises env p r"] run)
       (simp add: js_try_catch_def js_bind_def [of "Promise_all (settle_order env) ps"] e
          js_throw_def)
  with mem run show ?thesis by auto
qed

lemma upt_4: "[0..<4] = [0, 1, 2, 3::nat]"
  by code_simp

lemma generateWallpapers_fulfilled:
  assumes "wallpaper_promises env p r w = (Inr [Inr u0, Inr u1, Inr u2, Inr u3], w1)"
  shows "generateWallpapers env p r w =
     (Inr [\<lparr>image_id = Number_toString (now env (clock_reads w1)) @ ascii ''-'' @ Number_toString 0,
            url = u0, prompt = p, createdAt = now env (clock_reads w1 + 1)\<rparr>,
           \<lparr>image_id = Number_toString (now env (clock_reads w1 + 2)) @ ascii ''-'' @ Number_toString 1,
            url = u1, prompt = p, createdAt = now env (clock_reads w1 + 3)\<rparr>,
           \<lparr>image_id = Number_toString (now env (clock_reads w1 + 4)) @ ascii ''-'' @ Number_toString 2,
            url = u2, prompt = p, createdAt = now env (clock_reads w1 + 5)\<rparr>,
           \<lparr>image_id = Number_toString (now env (clock_reads w1 + 6)) @ ascii ''-'' @ Number_toString 3,
            url = u3, prompt = p, createdAt = now env (clock_reads w1 + 7)\<rparr>],
      w1\<lparr>clock_reads := clock_reads w1 + 8\<rparr>)"
proof -
  have all: "Promise_all (settle_order env) [Inr u0, Inr u1, Inr u2, Inr u3] w1
             = (Inr [u0, u1, u2, u3], w1)"
    using Promise_all_fulfilled [of "settle_order env" "[u0, u1, u2, u3]" w1] by simp
  have "[0..<Suc (Suc (Suc (Suc 0)))] = [0, 1, 2, 3]"
    using upt_4 by (simp add: numeral_eq_Suc)
  then have z: "zip [u0, u1, u2, u3] [0..<Suc (Suc (Suc (Suc 0)))]
           = [(u0, 0), (u1, 1), (u2, 2), (u3, 3)]"
    by simp
  show ?thesis
    unfolding generateWallpapers_def
    by (simp add: js_bind_def [of "wallpaper_promises env p r"] assms)
       (simp add: js_defs all z Date_now_def numeral_eq_Suc del: upt_Suc)
qed

lemma ids_distinct:
  "distinct [a @ ascii ''-'' @ Number_toString 0, b @ ascii ''-'' @ Number_toString 1,
             c @ ascii ''-'' @ Number_toString 2, d @ ascii ''-'' @ Number_toString 3]"
  by (simp add: Number_toString_def ascii_def)

lemma generateWallpapers_unarmed:
  assumes "genAI w = None"
  shows "generateWallpapers env p r w = (Inl (Error wallpapers_no_api_key_message), w)"
proof -
  let ?e = "Error no_api_key_message"
  have run: "wallpaper_promises env p r w = (Inr (replicate 4 (Inl ?e)), w)"
    using assms by (rule wallpaper_promises_unarmed)
  have fst_run: "fst (wallpaper_promises env p r w) = Inr (replicate 4 (Inl ?e))"
    by (simp add: run)
  have mem: "Inl ?e \<in> set (replicate 4 (Inl ?e :: js_exn + jsstring))" by simp
  from generateWallpapers_rejected [OF fst_run mem]
  obtain e where e: "Inl e \<in> set (replicate 4 (Inl ?e :: js_exn + jsstring))"
    and g: "generateWallpapers env p r w =
       (Inl (if mentions_API_Key e then Error wallpapers_no_api_key_message
             else Error wallpapers_failed_message), snd (wallpaper_promises env p r w))"
    by (elim exE conjE)
  from e have "e = ?e" by simp
  with g run show ?thesis by (simp add: mentions_no_api_key)
qed

lemma perform_unarmed:
  assumes "genAI w = None"
  shows "perform env c w = (Inl (missing_credential c), w)"
  using assms
  by (cases c)
     (simp_all add: js_bind_def generateTopicSuggestions_unarmed generateCreativePrompt_unarmed
        generateSingleImage_unarmed generateWallpapers_unarmed)

lemma perform_all_unarmed:
  "genAI w = None \<Longrightarrow> perform_all env calls w = map (\<lambda>c. Inl (missing_credential c)) calls"
  by (induction calls) (simp_all add: perform_unarmed)

lemma mentions_missing_credential: "mentions_API_Key (missing_credential c)"
  by (cases c) (simp_all add: mentions_no_api_key mentions_wallpapers_no_api_key)

lemma generateCreativePrompt_armed:
  assumes "genAI w = Some ai"
  shows "fst (generateCreativePrompt env theme w) =
     (case respond env (length (issued w)) ai
             (Request TEXT_MODEL_NAME (Contents_text (creative_prompt_text theme)) None) of
        Inr resp \<Rightarrow> Inr (trimmed_text_or resp theme)
      | Inl e \<Rightarrow> if mentions_API_Key e then Inl e else Inr theme)"
  using assms
  by (simp add: generateCreativePrompt_def js_defs getClient_armed generateContent_def
      split: sum.splits)

lemma generateTopicSuggestions_armed:
  assumes "genAI w = Some ai"
  shows "fst (generateTopicSuggestions env w) =
     (case respond env (length (issued w)) ai
             (Request TEXT_MODEL_NAME (Contents_text topics_prompt_text) None) of
        Inr resp \<Rightarrow>
          Inr (filter (\<lambda>t. length t > 0) (map trim (split_on 0x2C (text_or_empty resp))))
      | Inl e \<Rightarrow> if mentions_API_Key e then Inl e else Inr fallback_topics)"
  using assms
  by (simp add: generateTopicSuggestions_def js_defs getClient_armed generateContent_def
      split: sum.splits)

lemma fallback_topics_5: "length fallback_topics = 5 \<and> [] \<notin> set fallback_topics"
  by (simp add: fallback_topics_def ascii_def)

lemma not_mentions_503: "\<not> mentions_API_Key (Error (ascii ''503 Service Unavailable''))"
  by (simp add: mentions_API_Key_def js_includes_def ascii_def sublist_code)

lemma mentions_key_not_found:
  "mentions_API_Key (Error (ascii ''API Key not found. Please pass a valid API key.''))"
  by (simp add: mentions_API_Key_def js_includes_def ascii_def sublist_code)

lemma generateSingleImage_fulfilled:
  assumes "genAI w = Some ai"
    and "respond env (length (issued w)) ai (image_request p r) = Inr resp"
  shows "fst (generateSingleImage env p r w) = fst (extract_image resp w)"
  using assms by (simp add: generateSingleImage_armed)

lemma extract_image_first_candidate:
  "fst (extract_image (Response (Some (Candidate (Some (Content (Some ps))) # cs)) t) w) =
     (case first_inline_image ps of
        Some found \<Rightarrow> Inr found
      | None \<Rightarrow> Inl (Error no_image_message))"
  by (simp add: extract_image_def js_defs split: option.splits)

lemma extract_image_no_candidates:
  "fst (extract_image (Response None t) w) = Inl (Error no_image_message)"
  by (simp add: extract_image_def js_defs)

lemma generateSingleImage_result:
  assumes "genAI w' = Some ai"
  shows "fst (generateSingleImage env p r w') =
     (case respond env (length (issued w')) ai (image_request p r) of
        Inl e \<Rightarrow> Inl e
      | Inr resp \<Rightarrow> fst (extract_image resp w))"
proof -
  have "fst (extract_image resp w') = fst (extract_image resp w)" for resp
    using extract_image_run [of resp w' w] by simp
  then show ?thesis
    using assms by (simp add: generateSingleImage_armed split: sum.splits)
qed

lemma wallpaper_promises_constant:
  assumes "genAI w = Some ai" and "\<And>n. respond env n ai (image_request p r) = out"
  shows "fst (wallpaper_promises env p r w) =
     Inr (replicate 4 (case out of Inl e \<Rightarrow> Inl e | Inr resp \<Rightarrow> fst (extract_image resp w)))"
proof -
  let ?G = "generateSingleImage env p r"
  let ?x = "case out of Inl e \<Rightarrow> Inl e | Inr resp \<Rightarrow> fst (extract_image resp w)"
  have G: "fst (?G w') = ?x" if "genAI w' = Some ai" for w'
    using generateSingleImage_result [OF that, of env p r w] assms(2) by simp
  have a1: "genAI (snd (?G w)) = Some ai"
    using assms(1) by (simp add: generateSingleImage_genAI)
  have a2: "genAI (snd (?G (snd (?G w)))) = Some ai"
    using a1 by (simp add: generateSingleImage_genAI)
  have a3: "genAI (snd (?G (snd (?G (snd (?G w))))) ) = Some ai"
    using a2 by (simp add: generateSingleImage_genAI)
  have "replicate 4 ?x = [?x, ?x, ?x, ?x]"
    by (simp add: numeral_eq_Suc)
  then show ?thesis
    using G [OF assms(1)] G [OF a1] G [OF a2] G [OF a3]
    by (simp add: wallpaper_promises_run Let_def)
qed



lemma generateWallpapers_state:
  "snd (generateWallpapers env p r w) = snd (wallpaper_promises env p r w)
   \<or> snd (generateWallpapers env p r w)
       = (snd (wallpaper_promises env p r w))
           \<lparr>clock_reads := clock_reads (snd (wallpaper_promises env p r w)) + 8\<rparr>"
proof -
  let ?G = "generateSingleImage env p r"
  obtain a b c d w4 where run: "wallpaper_promises env p r w = (Inr [a, b, c, d], w4)"
    by (simp add: wallpaper_promises_run Let_def)
  show ?thesis
  proof (cases "\<exists>q\<in>set [a, b, c, d]. isl q")
    case True
    then obtain q where q: "q \<in> set [a, b, c, d]" "isl q" by blast
    from q(2) obtain e0 where "q = Inl e0" by (cases q) simp_all
    with q have mem: "Inl e0 \<in> set [a, b, c, d]" by simp
    have "fst (wallpaper_promises env p r w) = Inr [a, b, c, d]"
      by (simp add: run)
    from generateWallpapers_rejected [OF this mem] show ?thesis
      by auto
  next
    case False
    then obtain u0 u1 u2 u3 where u: "a = Inr u0" "b = Inr u1" "c = Inr u2" "d = Inr u3"
      by (cases a; cases b; cases c; cases d) simp_all
    from run have "wallpaper_promises env p r w = (Inr [Inr u0, Inr u1, Inr u2, Inr u3], w4)"
      by (simp add: u)
    from generateWallpapers_fulfilled [OF this] run show ?thesis
      by simp
  qed
qed

lemma generateWallpapers_issued:
  "issued (snd (generateWallpapers env p r w)) =
     issued w @ (case genAI w of None \<Rightarrow> [] | Some ai \<Rightarrow> replicate 4 (ai, image_request p r))
   \<and> genAI (snd (generateWallpapers env p r w)) = genAI w"
proof -
  have "issued (snd (wallpaper_promises env p r w)) =
     issued w @ (case genAI w of None \<Rightarrow> [] | Some ai \<Rightarrow> replicate 4 (ai, image_request p r))
     \<and> genAI (snd (wallpaper_promises env p r w)) = genAI w"
  proof (cases "genAI w")
    case None
    then show ?thesis by (simp add: wallpaper_promises_unarmed)
  next
    case (Some ai)
    then show ?thesis by (simp add: wallpaper_promises_armed)
  qed
  then show ?thesis
    using generateWallpapers_state [of env p r w] by auto
qed


subsection \<open>Facts about the coordinator\<close>

lemma handleGenerate_starts:
  "handleGenerate_start st =
     (if apiKey st = [] then (None, st\<lparr>isSettingsOpen := True\<rparr>)
      else if trim (app.prompt st) = [] then (None, st)
      else (Some (app.prompt st, map_option url (remixSource st)),
            st\<lparr>isLoading := True, error := None, images := []\<rparr>))"
  by (simp add: handleGenerate_start_def checkApiKey_def)

subsection \<open>Facts about the store\<close>

lemma js_try_catch_total:
  assumes "\<And>e w. \<exists>x w'. h e w = (Inr x, w')"
  shows "\<exists>x w'. js_try_catch m h w = (Inr x, w')"
proof (cases "m w")
  case (Pair r w1)
  show ?thesis
  proof (cases r)
    case (Inl e)
    with Pair assms [of e w1] show ?thesis by (simp add: js_try_catch_def)
  next
    case (Inr x)
    with Pair show ?thesis by (simp add: js_try_catch_def)
  qed
qed

lemma js_bind_total:
  assumes "\<exists>x w'. m w = (Inr x, w')" and "\<And>x w. \<exists>y w'. f x w = (Inr y, w')"
  shows "\<exists>y w'. js_bind m f w = (Inr y, w')"
proof -
  from assms(1) obtain x w1 where "m w = (Inr x, w1)" by blast
  with assms(2) [of x w1] show ?thesis by (simp add: js_bind_def)
qed

lemma getItem_returns: "\<exists>v w'. getItem env key w = (Inr v, w')"
  unfolding getItem_def
  by (rule js_bind_total, rule js_try_catch_total)
     (auto simp: js_return_def split: option.splits)

lemma setItem_returns: "\<exists>w'. setItem env key v w = (Inr (), w')"
proof -
  have "\<exists>u w'. setItem env key v w = (Inr u, w')"
    unfolding setItem_def
    by (rule js_bind_total, rule js_try_catch_total) (auto simp: js_return_def)
  then show ?thesis by simp
qed

lemma removeItem_returns: "\<exists>w'. removeItem env key w = (Inr (), w')"
proof -
  have "\<exists>u w'. removeItem env key w = (Inr u, w')"
    unfolding removeItem_def
    by (rule js_bind_total, rule js_try_catch_total) (auto simp: js_return_def)
  then show ?thesis by simp
qed

lemmas storage_defs = on_storage_def localStorage_available_def call_localStorage_def

lemma setItem_blocked:
  "setItem always_throwing key v w =
     (Inr (), w\<lparr>memoryStore := memoryStore_set (memoryStore w) key v\<rparr>)"
  by (simp add: setItem_def always_throwing_def js_defs storage_defs)

lemma getItem_blocked:
  "getItem always_throwing key w = (Inr (or_null (memoryStore_get (memoryStore w) key)), w)"
  by (simp add: getItem_def always_throwing_def js_defs storage_defs)

lemma proto_inherited: "ascii ''__proto__'' \<in> set object_prototype_names"
  by (simp add: object_prototype_names_def)

lemma setItem_getItem_blocked:
  "fst (js_bind (setItem always_throwing key v) (\<lambda>_. getItem always_throwing key) w) =
     Inr (if key = ascii ''__proto__'' \<and> memoryStore w key = None then Object
          else if v = [] then Null else Str v)"
proof (cases "key = ascii ''__proto__'' \<and> memoryStore w key = None")
  case True
  then have k: "key = ascii ''__proto__''" and n: "memoryStore w key = None"
    by blast+
  have "memoryStore_set (memoryStore w) key v = memoryStore w"
    using k n by (simp add: memoryStore_set_def)
  moreover have "memoryStore_get (memoryStore w) key = Object"
    using n proto_inherited unfolding k by (simp add: memoryStore_get_def)
  ultimately show ?thesis
    using k n by (simp add: js_bind_def setItem_blocked getItem_blocked or_null_def)
next
  case False
  then have "memoryStore_set (memoryStore w) key v = (memoryStore w)(key \<mapsto> v)"
    by (auto simp: memoryStore_set_def)
  then have "memoryStore_get (memoryStore_set (memoryStore w) key v) key = Str v"
    by (simp add: memoryStore_get_def)
  then have "fst (js_bind (setItem always_throwing key v) (\<lambda>_. getItem always_throwing key) w)
             = Inr (if v = [] then Null else Str v)"
    by (simp add: js_bind_def setItem_blocked getItem_blocked or_null_def)
  then show ?thesis
    by (simp only: if_not_P [OF False])
qed

section \<open>The claims\<close>

text \<open>
  C1. The claim is that \<open>setItem(key, value)\<close> followed by \<open>getItem(key)\<close> gives back
  \<open>value\<close> for every string, also when every operation of the persistent layer throws.
  With such a layer, writing the empty string under the key the application uses and
  reading it back gives \<open>null\<close>: \<open>memoryStore[key] || null\<close> takes the empty string for
  a missing entry. (\<open>setItem_getItem_blocked\<close> above gives the result for every key and
  value: the written value when it is not empty, except under the key \<open>__proto__\<close>.)
\<close>

theorem setItem_getItem_empty_string:
  "fst (js_bind (setItem always_throwing (ascii ''moodpaper_api_key'') [])
          (\<lambda>_. getItem always_throwing (ascii ''moodpaper_api_key'')) fresh_session)
     = Inr Null
   \<and> Null \<noteq> Str []"
  by (simp add: setItem_getItem_blocked ascii_def)




text \<open>
  C3. \<open>generateWallpapers\<close> makes exactly four calls of \<open>generateSingleImage\<close>, one after
  the other and each with the same prompt and reference image, and nothing else reaches
  the provider: when it is done, with a credential exactly four equal requests have been
  issued, and none without. The four promises always exist. When none is rejected the
  result is a list of four images with distinct ids, each with the given prompt, and with
  the four results as urls, in order, and the clock has been read eight times. When one is
  rejected the result is one thrown error, one of the two aggregate errors, and no list.
\<close>

theorem generateWallpapers_all_or_nothing:
  "wallpaper_promises env p r w =
     (let G = generateSingleImage env p r;
          w1 = snd (G w); w2 = snd (G w1); w3 = snd (G w2); w4 = snd (G w3)
      in (Inr [fst (G w), fst (G w1), fst (G w2), fst (G w3)], w4))
   \<and> (\<forall>ai. genAI w = Some ai \<longrightarrow>
          issued (snd (wallpaper_promises env p r w))
          = issued w @ replicate 4 (ai, image_request p r))
   \<and> issued (snd (generateWallpapers env p r w))
       = issued w @ (case genAI w of None \<Rightarrow> []
                                   | Some ai \<Rightarrow> replicate 4 (ai, image_request p r))
   \<and> genAI (snd (generateWallpapers env p r w)) = genAI w
   \<and> (\<exists>promises. fst (wallpaper_promises env p r w) = Inr promises \<and> length promises = 4
        \<and> ((\<forall>q\<in>set promises. \<not> isl q) \<longrightarrow>
             (\<exists>imgs. fst (generateWallpapers env p r w) = Inr imgs \<and> length imgs = 4
                \<and> distinct (map image_id imgs)
                \<and> (\<forall>g\<in>set imgs. GeneratedImage.prompt g = p)
                \<and> map (\<lambda>g. Inr (url g)) imgs = promises)
             \<and> snd (generateWallpapers env p r w)
                 = (snd (wallpaper_promises env p r w))
                     \<lparr>clock_reads := clock_reads (snd (wallpaper_promises env p r w)) + 8\<rparr>)
        \<and> ((\<exists>q\<in>set promises. isl q) \<longrightarrow>
             fst (generateWallpapers env p r w)
             \<in> {Inl (Error wallpapers_no_api_key_message), Inl (Error wallpapers_failed_message)}
             \<and> snd (generateWallpapers env p r w) = snd (wallpaper_promises env p r w)))"
proof -
  let ?G = "generateSingleImage env p r"
  define w1 where "w1 = snd (?G w)"
  define w2 where "w2 = snd (?G w1)"
  define w3 where "w3 = snd (?G w2)"
  define w4 where "w4 = snd (?G w3)"
  define a where "a = fst (?G w)"
  define b where "b = fst (?G w1)"
  define c where "c = fst (?G w2)"
  define d where "d = fst (?G w3)"
  have run: "wallpaper_promises env p r w = (Inr [a, b, c, d], w4)"
    by (simp add: wallpaper_promises_run Let_def w1_def w2_def w3_def w4_def
        a_def b_def c_def d_def)
  have log: "issued (snd (wallpaper_promises env p r w))
             = issued w @ replicate 4 (ai, image_request p r)" if "genAI w = Some ai" for ai
    using wallpaper_promises_armed [OF that, of env p r] by simp
  have ok: "(\<exists>imgs. fst (generateWallpapers env p r w) = Inr imgs \<and> length imgs = 4
                \<and> distinct (map image_id imgs)
                \<and> (\<forall>g\<in>set imgs. GeneratedImage.prompt g = p)
                \<and> map (\<lambda>g. Inr (url g)) imgs = [a, b, c, d])
             \<and> snd (generateWallpapers env p r w) = w4\<lparr>clock_reads := clock_reads w4 + 8\<rparr>"
    if all: "\<forall>q\<in>set [a, b, c, d]. \<not> isl q"
  proof -
    from all obtain u0 u1 u2 u3 where u: "a = Inr u0" "b = Inr u1" "c = Inr u2" "d = Inr u3"
      by (cases a; cases b; cases c; cases d) simp_all
    from run have "wallpaper_promises env p r w = (Inr [Inr u0, Inr u1, Inr u2, Inr u3], w4)"
      by (simp add: u)
    from generateWallpapers_fulfilled [OF this] ids_distinct show ?thesis
      by (simp add: u)
  qed
  have bad: "fst (generateWallpapers env p r w)
             \<in> {Inl (Error wallpapers_no_api_key_message), Inl (Error wallpapers_failed_message)}
             \<and> snd (generateWallpapers env p r w) = w4"
    if some: "\<exists>q\<in>set [a, b, c, d]. isl q"
  proof -
    from some obtain q where q: "q \<in> set [a, b, c, d]" "isl q" by blast
    from q(2) obtain e0 where "q = Inl e0" by (cases q) simp_all
    with q have mem: "Inl e0 \<in> set [a, b, c, d]" by simp
    have "fst (wallpaper_promises env p r w) = Inr [a, b, c, d]"
      by (simp add: run)
    from generateWallpapers_rejected [OF this mem] show ?thesis
      by (auto simp: run)
  qed
  have "\<exists>promises. fst (wallpaper_promises env p r w) = Inr promises \<and> length promises = 4
        \<and> ((\<forall>q\<in>set promises. \<not> isl q) \<longrightarrow>
             (\<exists>imgs. fst (generateWallpapers env p r w) = Inr imgs \<and> length imgs = 4
                \<and> distinct (map image_id imgs)
                \<and> (\<forall>g\<in>set imgs. GeneratedImage.prompt g = p)
                \<and> map (\<lambda>g. Inr (url g)) imgs = promises)
             \<and> snd (generateWallpapers env p r w)
                 = (snd (wallpaper_promises env p r w))
                     \<lparr>clock_reads := clock_reads (snd (wallpaper_promises env p r w)) + 8\<rparr>)
        \<and> ((\<exists>q\<in>set promises. isl q) \<longrightarrow>
             fst (generateWallpapers env p r w)
             \<in> {Inl (Error wallpapers_no_api_key_message), Inl (Error wallpapers_failed_message)}
             \<and> snd (generateWallpapers env p r w) = snd (wallpaper_promises env p r w))"
    using ok bad by (intro exI [of _ "[a, b, c, d]"]) (simp add: run)
  with log generateWallpapers_issued [of env p r w] show ?thesis
    by (simp add: wallpaper_promises_run)
qed

theorem generateWallpapers_all_or_nothing_witness:
  "(\<exists>imgs. fst (generateWallpapers (answering one_image) (ascii ''sunset'') None armed) = Inr imgs
       \<and> length imgs = 4 \<and> distinct (map image_id imgs)
       \<and> list_all (\<lambda>g. GeneratedImage.prompt g = ascii ''sunset'') imgs)
   \<and> fst (generateWallpapers (rejecting (Error (ascii ''503 Service Unavailable'')))
          (ascii ''sunset'') None armed)
     \<in> {Inl (Error wallpapers_no_api_key_message), Inl (Error wallpapers_failed_message)}
   \<and> issued (snd (generateWallpapers (answering one_image) (ascii ''sunset'') None armed))
     = replicate 4 (GoogleGenAI (ascii ''abc123''), image_request (ascii ''sunset'') None)"
proof -
  have h: "genAI armed = Some (GoogleGenAI (ascii ''abc123''))"
    by (simp add: armed_def)
  have x: "fst (extract_image one_image armed) = Inr (ascii ''data:image/png;base64,QUJD'')"
    by (simp add: extract_image_def one_image_def js_defs data_url_def ascii_def)
  have good: "fst (wallpaper_promises (answering one_image) (ascii ''sunset'') None armed)
        = Inr (replicate 4 (Inr (ascii ''data:image/png;base64,QUJD'')))"
    using wallpaper_promises_constant [OF h, of "answering one_image" "ascii ''sunset''" None
        "Inr one_image"] x
    by (simp add: answering_def)
  have bad: "fst (wallpaper_promises (rejecting (Error (ascii ''503 Service Unavailable'')))
                (ascii ''sunset'') None armed)
        = Inr (replicate 4 (Inl (Error (ascii ''503 Service Unavailable''))))"
    using wallpaper_promises_constant [OF h,
        of "rejecting (Error (ascii ''503 Service Unavailable''))" "ascii ''sunset''" None
        "Inl (Error (ascii ''503 Service Unavailable''))"]
    by (simp add: rejecting_def)
  from generateWallpapers_all_or_nothing [of "answering one_image" "ascii ''sunset''" None armed]
  have first: "\<exists>imgs. fst (generateWallpapers (answering one_image) (ascii ''sunset'') None armed)
         = Inr imgs
       \<and> length imgs = 4 \<and> distinct (map image_id imgs)
       \<and> list_all (\<lambda>g. GeneratedImage.prompt g = ascii ''sunset'') imgs"
    unfolding good by (auto simp: list_all_iff)
  from generateWallpapers_all_or_nothing
    [of "rejecting (Error (ascii ''503 Service Unavailable''))" "ascii ''sunset''" None armed]
  have second: "fst (generateWallpapers (rejecting (Error (ascii ''503 Service Unavailable'')))
          (ascii ''sunset'') None armed)
     \<in> {Inl (Error wallpapers_no_api_key_message), Inl (Error wallpapers_failed_message)}"
    unfolding bad by simp
  from generateWallpapers_all_or_nothing [of "answering one_image" "ascii ''sunset''" None armed]
  have third: "issued (snd (generateWallpapers (answering one_image) (ascii ''sunset'') None armed))
     = replicate 4 (GoogleGenAI (ascii ''abc123''), image_request (ascii ''sunset'') None)"
    by (simp add: armed_def)
  from first second third show ?thesis by simp
qed

text \<open>
  C4. \<open>validateApiKey\<close> never throws: for every candidate it returns a boolean, which is
  \<open>false\<close> when the probe call to the provider is rejected, with any error, and \<open>true\<close>
  exactly when the probe call is fulfilled. It issues that one call, with the candidate.
\<close>

theorem validateApiKey_never_throws:
  "validateApiKey env candidate w =
     (Inr (case respond env (length (issued w)) (GoogleGenAI candidate)
                 (Request TEXT_MODEL_NAME (Contents_text (ascii ''test'')) None) of
             Inl e \<Rightarrow> False
           | Inr resp \<Rightarrow> True),
      w\<lparr>issued := issued w @ [(GoogleGenAI candidate,
                                 Request TEXT_MODEL_NAME (Contents_text (ascii ''test'')) None)]\<rparr>)"
  by (simp add: validateApiKey_def js_defs generateContent_def split: sum.splits)

text \<open>
  C5, as amended. When its call fails, \<open>generateCreativePrompt\<close> returns the theme
  unchanged, except when the error is an \<open>Error\<close> whose message contains \<open>API Key\<close>, which
  is thrown on to the caller: that is the error of \<open>getClient\<close> when there is no credential,
  and also a rejection of the provider with such a message when there is one. When the
  provider answers, the result is the trimmed text of the answer, or the theme when there
  is none.
\<close>

theorem generateCreativePrompt_result:
  "fst (generateCreativePrompt env theme w) =
     (case genAI w of
        None \<Rightarrow> Inl (Error no_api_key_message)
      | Some ai \<Rightarrow>
          (case respond env (length (issued w)) ai
                  (Request TEXT_MODEL_NAME (Contents_text (creative_prompt_text theme)) None) of
             Inr resp \<Rightarrow> Inr (trimmed_text_or resp theme)
           | Inl e \<Rightarrow> if mentions_API_Key e then Inl e else Inr theme))
   \<and> mentions_API_Key (Error no_api_key_message)"
proof (cases "genAI w")
  case None
  then show ?thesis
    by (simp add: generateCreativePrompt_unarmed mentions_no_api_key)
next
  case (Some ai)
  then show ?thesis
    by (simp add: generateCreativePrompt_armed mentions_no_api_key)
qed

theorem generateCreativePrompt_result_witness:
  "fst (generateCreativePrompt (rejecting (Error (ascii ''503 Service Unavailable'')))
          (ascii ''sunset'') armed)
     = Inr (ascii ''sunset'')
   \<and> fst (generateCreativePrompt (rejecting (Error (ascii ''503 Service Unavailable'')))
          (ascii ''sunset'') unarmed)
     = Inl (Error no_api_key_message)"
  using generateCreativePrompt_result
      [of "rejecting (Error (ascii ''503 Service Unavailable''))" "ascii ''sunset''" armed]
    generateCreativePrompt_result
      [of "rejecting (Error (ascii ''503 Service Unavailable''))" "ascii ''sunset''" unarmed]
    not_mentions_503
  by (simp add: armed_def unarmed_def rejecting_def)

text \<open>
  The claim as stated fails: with a credential set, a rejection of the provider whose
  message contains \<open>API Key\<close> is thrown on, and the theme is not returned.
\<close>

theorem generateCreativePrompt_rethrows_provider_error:
  "genAI armed = Some (GoogleGenAI (ascii ''abc123''))
   \<and> respond (rejecting (Error (ascii ''API Key not found. Please pass a valid API key.'')))
        (length (issued armed)) (GoogleGenAI (ascii ''abc123''))
        (Request TEXT_MODEL_NAME (Contents_text (creative_prompt_text (ascii ''sunset''))) None)
      = Inl (Error (ascii ''API Key not found. Please pass a valid API key.''))
   \<and> fst (generateCreativePrompt
            (rejecting (Error (ascii ''API Key not found. Please pass a valid API key.'')))
            (ascii ''sunset'') armed)
      = Inl (Error (ascii ''API Key not found. Please pass a valid API key.''))"
proof -
  have a: "genAI armed = Some (GoogleGenAI (ascii ''abc123''))" by (simp add: armed_def)
  show ?thesis
    using a mentions_key_not_found
    by (simp add: generateCreativePrompt_armed [OF a] rejecting_def)
qed

text \<open>
  C6, as amended. With a credential, \<open>generateTopicSuggestions\<close> returns, when the provider
  answers, the pieces of the answer between commas, trimmed, without the empty ones,
  however many they are; when the provider rejects the call with an error that is not
  taken for a missing credential, the built-in list, which has five entries; and it
  throws on an error whose message contains \<open>API Key\<close>. No entry of a returned list is
  empty.
\<close>

theorem generateTopicSuggestions_result:
  assumes "genAI w = Some ai"
  shows "fst (generateTopicSuggestions env w) =
     (case respond env (length (issued w)) ai
             (Request TEXT_MODEL_NAME (Contents_text topics_prompt_text) None) of
        Inr resp \<Rightarrow>
          Inr (filter (\<lambda>t. length t > 0) (map trim (split_on 0x2C (text_or_empty resp))))
      | Inl e \<Rightarrow> if mentions_API_Key e then Inl e else Inr fallback_topics)
     \<and> length fallback_topics = 5
     \<and> (\<forall>ts. fst (generateTopicSuggestions env w) = Inr ts \<longrightarrow> [] \<notin> set ts)"
proof -
  have "[] \<notin> set ts" if "fst (generateTopicSuggestions env w) = Inr ts" for ts
    using that fallback_topics_5
    by (auto simp: generateTopicSuggestions_armed [OF assms] split: sum.splits if_splits)
  then show ?thesis
    using fallback_topics_5 by (simp add: generateTopicSuggestions_armed [OF assms])
qed

theorem generateTopicSuggestions_result_witness:
  "genAI armed = Some (GoogleGenAI (ascii ''abc123''))
   \<and> fst (generateTopicSuggestions (rejecting (Error (ascii ''503 Service Unavailable''))) armed)
      = Inr fallback_topics
   \<and> length fallback_topics = 5"
proof -
  have h: "genAI armed = Some (GoogleGenAI (ascii ''abc123''))"
    by (simp add: armed_def)
  show ?thesis
    using h generateTopicSuggestions_result [OF h, of "rejecting (Error (ascii ''503 Service Unavailable''))"]
      not_mentions_503
    by (simp add: rejecting_def)
qed

text \<open>
  The claim as stated fails: an answer with two themes gives a list of two, and a rejection
  whose message contains \<open>API Key\<close> is thrown, not replaced by the built-in list.
\<close>

theorem generateTopicSuggestions_not_always_five:
  "fst (generateTopicSuggestions
          (answering (Response None (Some (ascii ''neon city, zen garden'')))) armed)
     = Inr [ascii ''neon city'', ascii ''zen garden'']
   \<and> length [ascii ''neon city'', ascii ''zen garden''] \<noteq> 5
   \<and> fst (generateTopicSuggestions
          (rejecting (Error (ascii ''API Key not found. Please pass a valid API key.''))) armed)
     = Inl (Error (ascii ''API Key not found. Please pass a valid API key.''))"
proof -
  have h: "genAI armed = Some (GoogleGenAI (ascii ''abc123''))"
    by (simp add: armed_def)
  have split: "filter (\<lambda>t. length t > 0)
                 (map trim (split_on 0x2C (ascii ''neon city, zen garden'')))
               = [ascii ''neon city'', ascii ''zen garden'']"
    by (simp add: ascii_def trim_def is_white_space_def)
  show ?thesis
    using split mentions_key_not_found
    by (simp add: generateTopicSuggestions_armed [OF h] answering_def rejecting_def
        text_or_empty_def)
qed

text \<open>
  C7. The claim is that \<open>generateSingleImage\<close> fails with the error \<open>no_image_message\<close>
  whenever the response holds no inline image. For a response whose list of candidates is
  empty, and for one whose first candidate has no content, it throws the engine's
  \<open>TypeError\<close> of a property read on \<open>undefined\<close> instead. (For a first candidate with
  parts, \<open>extract_image_first_candidate\<close> above gives the first inline image, or that
  error when there is none.)
\<close>

theorem generateSingleImage_empty_candidates:
  "fst (generateSingleImage (answering (Response (Some []) None)) (ascii ''sunset'') None armed)
     = Inl (undefined_read ''content'')
   \<and> fst (generateSingleImage (answering (Response (Some [Candidate None]) None))
           (ascii ''sunset'') None armed)
     = Inl (undefined_read ''parts'')
   \<and> undefined_read ''content'' \<noteq> Error no_image_message
   \<and> undefined_read ''parts'' \<noteq> Error no_image_message"
proof -
  have h: "genAI armed = Some (GoogleGenAI (ascii ''abc123''))"
    by (simp add: armed_def)
  show ?thesis
    by (simp add: generateSingleImage_armed [OF h] answering_def extract_image_def js_defs
        undefined_read_def)
qed

text \<open>
  C8. Whenever \<open>handleGenerate\<close> goes on to call \<open>generateWallpapers\<close>, from any state of
  the component, the state it has set before the call, which is the state shown while the
  request is in flight, has an empty list of images and no error (and \<open>isLoading\<close> set);
  the call is made with that state in place, and only its settling changes the state
  again.
\<close>

theorem handleGenerate_clears_before_request:
  assumes "handleGenerate_start st = (Some (p, r), st1)"
  shows "images st1 = [] \<and> error st1 = None \<and> isLoading st1
       \<and> handleGenerate env (st, w) =
           (handleGenerate_settled st (fst (generateWallpapers env p r w)) st1,
            snd (generateWallpapers env p r w))"
proof -
  from assms have "st1 = st\<lparr>isLoading := True, error := None, images := []\<rparr>"
    by (simp add: handleGenerate_starts split: if_splits)
  then show ?thesis
    using assms by (simp add: handleGenerate_def split: prod.splits)
qed

theorem handleGenerate_clears_before_request_witness:
  "handleGenerate_start stale
     = (Some (ascii ''sunset'', None), stale\<lparr>isLoading := True, error := None, images := []\<rparr>)
   \<and> images stale \<noteq> [] \<and> error stale \<noteq> None
   \<and> images (stale\<lparr>isLoading := True, error := None, images := []\<rparr>) = []
   \<and> error (stale\<lparr>isLoading := True, error := None, images := []\<rparr>) = None"
proof -
  have "trim (ascii ''sunset'') = ascii ''sunset''"
    by (simp add: trim_def ascii_def is_white_space_def)
  then have h: "handleGenerate_start stale
     = (Some (ascii ''sunset'', None), stale\<lparr>isLoading := True, error := None, images := []\<rparr>)"
    by (simp add: handleGenerate_starts stale_def ascii_def)
  show ?thesis
    using h handleGenerate_clears_before_request [OF h, of "rejecting OtherThrown" unarmed]
    by (simp add: stale_def)
qed

text \<open>
  C9. Whatever the persistent layer does (throw on access, throw in a method, return
  anything, change its state), for every key, value and session state each of
  \<open>getItem\<close>, \<open>setItem\<close> and \<open>removeItem\<close> completes normally: none of them throws to
  its caller.
\<close>

theorem safeStorage_never_throws:
  "(\<exists>r w'. getItem env key w = (Inr r, w'))
   \<and> (\<exists>w'. setItem env key v w = (Inr (), w'))
   \<and> (\<exists>w'. removeItem env key w = (Inr (), w'))"
  using getItem_returns [of env key w] setItem_returns [of env key v w]
    removeItem_returns [of env key w]
  by simp

text \<open>
  C10. \<open>setApiKey("")\<close> sets \<open>genAI\<close> to \<open>null\<close>: in every session of calls to the client
  that follows it, each call fails with the error of the missing credential (whose message
  contains \<open>API Key\<close>), whatever the provider would answer; and \<open>setApiKey\<close> with a
  non-empty string arms the client with that credential.
\<close>

theorem setApiKey_empty_disarms:
  "perform_all env calls (snd (setApiKey [] w)) = map (\<lambda>c. Inl (missing_credential c)) calls
   \<and> list_all (\<lambda>c. mentions_API_Key (missing_credential c)) calls
   \<and> genAI (snd (setApiKey (k # ks) w)) = Some (GoogleGenAI (k # ks))"
  by (simp add: perform_all_unarmed setApiKey_def mentions_missing_credential list_all_iff)

end
